theory Spec2Isabelle
  imports
    Main
    "HOL-Library.Sublist"
    "HOL-Library.Multiset"
    "HOL-Library.Char_ord"
    "HOL-Library.List_Lexorder"
begin

section \<open>The video feature connector of tensorflow\_datasets\<close>

text \<open>
  This theory embeds \<^verbatim>\<open>Video._ffmpeg_decode\<close> and \<^verbatim>\<open>Video.encode_example\<close> of
  \<^verbatim>\<open>tensorflow_datasets/core/features/video_feature.py\<close>. Both methods work through
  the operating system: they create and remove temporary files, start the ffmpeg binary
  and read the frames it wrote. The embedding threads an explicit world (a file system and
  a log of the processes started) through every call, and every Python exception is a
  value \<open>Inl e\<close> of the result.
\<close>

subsection \<open>Values and exceptions\<close>

text \<open>Byte strings and text strings are both lists of 8-bit characters.\<close>

type_synonym bytes = string

datatype error =
    ValueError string
  | AttributeError
  | OSError
  | IOError
  | NotFoundError
  | AlreadyExistsError
  | OtherError string

text \<open>
  The argument of \<^verbatim>\<open>encode_example\<close> is dynamically typed. The code inspects it with
  \<^verbatim>\<open>isinstance\<close> for \<^verbatim>\<open>np.ndarray\<close> and for strings; on anything else it calls
  \<^verbatim>\<open>seek(0)\<close> and then \<^verbatim>\<open>read()\<close>. Any other object is therefore described by what
  these two calls do: \<open>PyObj s r\<close> is an object whose \<^verbatim>\<open>seek(0)\<close> raises \<open>e\<close> when
  \<open>s = Some e\<close> (for an object with no such method, \<open>AttributeError\<close>) and returns
  otherwise, and whose \<^verbatim>\<open>read()\<close> raises or returns the bytes \<open>r\<close>.
\<close>

datatype 'a py_value =
    NdArray 'a
  | PyStr string
  | PyObj "error option" "error + bytes"

fun is_readable_stream :: "'a py_value \<Rightarrow> bool" where
  "is_readable_stream (PyObj None (Inr data)) = True"
| "is_readable_stream v = False"

fun is_ndarray :: "'a py_value \<Rightarrow> bool" where
  "is_ndarray (NdArray a) = True"
| "is_ndarray v = False"

fun is_string :: "'a py_value \<Rightarrow> bool" where
  "is_string (PyStr p) = True"
| "is_string v = False"

text \<open>What \<^verbatim>\<open>encode_example\<close> hands to \<^verbatim>\<open>Sequence.encode_example\<close>: the array
  itself, or the list of \<^verbatim>\<open>BytesIO\<close> frames read back from ffmpeg's output.\<close>

datatype 'a encoded_video = RawArray 'a | FrameFiles "bytes list"

subsection \<open>The file system\<close>

text \<open>
  A file system is an association list from absolute paths to nodes. The order of the
  list is the order in which the operating system enumerates entries, which
  \<^verbatim>\<open>os.listdir\<close> exposes and which is arbitrary.
\<close>

datatype node = File bytes | Dir

type_synonym filesystem = "(string \<times> node) list"

record world =
  filesys :: filesystem
  popen_log :: "string list list"

text \<open>\<^verbatim>\<open>posixpath.join\<close> with two arguments.\<close>

definition os_path_join :: "string \<Rightarrow> string \<Rightarrow> string" where
  "os_path_join a b =
     (if b \<noteq> [] \<and> hd b = CHR ''/'' then b
      else if a = [] \<or> last a = CHR ''/'' then a @ b
      else a @ ''/'' @ b)"

text \<open>The name under which path \<open>p\<close> is an entry of directory \<open>d\<close>, if it is one.\<close>

definition child_name :: "string \<Rightarrow> string \<Rightarrow> string option" where
  "child_name d p =
     (if prefix (d @ ''/'') p
      then (let n = drop (length d + 1) p
            in if n \<noteq> [] \<and> CHR ''/'' \<notin> set n then Some n else None)
      else None)"

definition os_listdir :: "string \<Rightarrow> filesystem \<Rightarrow> error + string list" where
  "os_listdir d f =
     (case map_of f d of
        Some Dir \<Rightarrow> Inr (List.map_filter (\<lambda>(p, n). child_name d p) f)
      | _ \<Rightarrow> Inl OSError)"

text \<open>\<^verbatim>\<open>open(p, 'rb').read()\<close>: the whole contents of a regular file.\<close>

definition open_read :: "string \<Rightarrow> filesystem \<Rightarrow> error + bytes" where
  "open_read p f = (case map_of f p of Some (File b) \<Rightarrow> Inr b | _ \<Rightarrow> Inl IOError)"

definition os_unlink :: "string \<Rightarrow> world \<Rightarrow> (error + unit) \<times> world" where
  "os_unlink p w =
     (case map_of (filesys w) p of
        Some (File b) \<Rightarrow> (Inr (), w\<lparr>filesys := filter (\<lambda>(q, n). q \<noteq> p) (filesys w)\<rparr>)
      | _ \<Rightarrow> (Inl OSError, w))"

definition under :: "string \<Rightarrow> string \<Rightarrow> bool" where
  "under d q \<longleftrightarrow> q = d \<or> prefix (d @ ''/'') q"

text \<open>\<^verbatim>\<open>shutil.rmtree\<close> removes the directory and everything below it; it raises when
  its argument is not a directory.\<close>

definition shutil_rmtree :: "string \<Rightarrow> world \<Rightarrow> (error + unit) \<times> world" where
  "shutil_rmtree d w =
     (case map_of (filesys w) d of
        Some Dir \<Rightarrow> (Inr (), w\<lparr>filesys := filter (\<lambda>(q, n). \<not> under d q) (filesys w)\<rparr>)
      | _ \<Rightarrow> (Inl OSError, w))"

subsection \<open>The environment\<close>

text \<open>
  What the code calls but does not define is a parameter:
  \<^item> \<open>run_process\<close>: \<^verbatim>\<open>subprocess.Popen\<close> followed by \<^verbatim>\<open>communicate\<close>, that is the
    ffmpeg binary. It either cannot be started, or exits with a return code, its captured
    standard output and standard error, and the file system as it left it;
  \<^item> \<open>gfile_Copy\<close>: \<^verbatim>\<open>tf.gfile.Copy\<close>, which may fail and may leave a file behind
    when it does;
  \<^item> \<open>tmp_candidate\<close>: the name \<^verbatim>\<open>tempfile\<close> draws next;
  \<^item> \<open>format_bytes\<close>: how \<^verbatim>\<open>'{}'.format\<close> renders a byte string (the bytes themselves
    under Python 2, their \<^verbatim>\<open>repr\<close> under Python 3);
  \<^item> \<open>sequence_encode_example\<close>: \<^verbatim>\<open>Sequence.encode_example\<close> of the base class.
\<close>

datatype proc_outcome = SpawnFailed error | Exited int bytes bytes filesystem

record ('a, 'r) env =
  run_process :: "string list \<Rightarrow> bytes option \<Rightarrow> filesystem \<Rightarrow> proc_outcome"
  gfile_Copy :: "string \<Rightarrow> string \<Rightarrow> filesystem \<Rightarrow> error option \<times> filesystem"
  tmp_candidate :: "filesystem \<Rightarrow> string"
  format_bytes :: "bytes \<Rightarrow> string"
  sequence_encode_example :: "'a encoded_video \<Rightarrow> error + 'r"

text \<open>\<^verbatim>\<open>tempfile.mkdtemp\<close> creates a directory that did not exist, or raises.\<close>

definition tempfile_mkdtemp :: "('a, 'r) env \<Rightarrow> world \<Rightarrow> (error + string) \<times> world" where
  "tempfile_mkdtemp env w =
     (let d = tmp_candidate env (filesys w)
      in if map_of (filesys w) d = None
         then (Inr d, w\<lparr>filesys := filesys w @ [(d, Dir)]\<rparr>)
         else (Inl OSError, w))"

text \<open>\<^verbatim>\<open>tempfile.mktemp\<close> only returns a name that is not in use; it creates nothing.\<close>

definition tempfile_mktemp :: "('a, 'r) env \<Rightarrow> world \<Rightarrow> (error + string) \<times> world" where
  "tempfile_mktemp env w =
     (let t = tmp_candidate env (filesys w)
      in if map_of (filesys w) t = None then (Inr t, w) else (Inl OSError, w))"

text \<open>Every call of \<^verbatim>\<open>subprocess.Popen\<close> is logged with its argument vector.\<close>

definition popen_communicate ::
  "('a, 'r) env \<Rightarrow> string list \<Rightarrow> bytes option \<Rightarrow> world \<Rightarrow> (error + int \<times> bytes \<times> bytes) \<times> world"
where
  "popen_communicate env args stdin_data w =
     (let w' = w\<lparr>popen_log := popen_log w @ [args]\<rparr>
      in case run_process env args stdin_data (filesys w) of
           SpawnFailed e \<Rightarrow> (Inl e, w')
         | Exited rc out err f' \<Rightarrow> (Inr (rc, out, err), w'\<lparr>filesys := f'\<rparr>))"

text \<open>
  \<^verbatim>\<open>try: body finally: cleanup\<close>. The cleanup runs on the world the body left,
  whether the body returned or raised. When the cleanup raises, its exception is the one
  that propagates; otherwise the outcome of the body does.
\<close>

definition try_finally ::
  "(error + 'b) \<times> world \<Rightarrow> (world \<Rightarrow> (error + unit) \<times> world) \<Rightarrow> (error + 'b) \<times> world"
where
  "try_finally body cleanup =
     (case cleanup (snd body) of
        (Inl e, w') \<Rightarrow> (Inl e, w')
      | (Inr u, w') \<Rightarrow> (fst body, w'))"

subsection \<open>The message of the decode error\<close>

definition digit_char :: "nat \<Rightarrow> char" where
  "digit_char n = ''0123456789'' ! (n mod 10)"

fun str_nat :: "nat \<Rightarrow> string" where
  "str_nat n = (if n < 10 then [digit_char n] else str_nat (n div 10) @ [digit_char n])"

definition str_int :: "int \<Rightarrow> string" where
  "str_int i = (if i < 0 then ''-'' @ str_nat (nat (- i)) else str_nat (nat i))"

fun str_join :: "string \<Rightarrow> string list \<Rightarrow> string" where
  "str_join sep [] = []"
| "str_join sep [x] = x"
| "str_join sep (x # y # ys) = x @ sep @ str_join sep (y # ys)"

definition newline :: char where
  "newline = CHR 0x0A"

definition decode_error_message ::
  "(bytes \<Rightarrow> string) \<Rightarrow> int \<Rightarrow> string list \<Rightarrow> bytes \<Rightarrow> bytes \<Rightarrow> string"
where
  "decode_error_message fmt rc args out err =
     ''ffmpeg returned error code '' @ str_int rc @ '', command='' @ str_join '' '' args @
     [newline] @ ''stdout='' @ fmt out @ [newline] @ ''stderr='' @ fmt err @ [newline]"

subsection \<open>The connector\<close>

text \<open>The fields \<^verbatim>\<open>__init__\<close> stores; the shape only goes to the base class.\<close>

record video =
  copy_locally :: bool
  encoding_format :: string
  extra_ffmpeg_args :: "string list"

definition ffmpeg_path :: string where
  "ffmpeg_path = ''ffmpeg''"

text \<open>Lines 101 to 107: the first arguments and the standard input, by the kind of the
  value. An array reaches the \<^verbatim>\<open>else\<close> branch and has no \<^verbatim>\<open>seek\<close>.\<close>

definition decode_source :: "'a py_value \<Rightarrow> error + string list \<times> bytes option" where
  "decode_source path_or_fobj =
     (case path_or_fobj of
        PyStr p \<Rightarrow> Inr ([ffmpeg_path, ''-i'', p], None)
      | PyObj seek_result read_result \<Rightarrow>
          (case seek_result of
             Some e \<Rightarrow> Inl e
           | None \<Rightarrow>
               (case read_result of
                  Inl e \<Rightarrow> Inl e
                | Inr data \<Rightarrow> Inr ([ffmpeg_path, ''-i'', ''pipe:0''], Some data)))
      | NdArray a \<Rightarrow> Inl AttributeError)"

text \<open>Lines 127 to 131: the loop over the sorted listing, appending each file's contents.\<close>

fun read_frames :: "string \<Rightarrow> string list \<Rightarrow> filesystem \<Rightarrow> bytes list \<Rightarrow> error + bytes list" where
  "read_frames d [] f images = Inr images"
| "read_frames d (image_path # rest) f images =
     (case open_read (os_path_join d image_path) f of
        Inl e \<Rightarrow> Inl e
      | Inr b \<Rightarrow> read_frames d rest f (images @ [b]))"

definition collect_frames :: "string \<Rightarrow> filesystem \<Rightarrow> error + bytes list" where
  "collect_frames d f =
     (case os_listdir d f of
        Inl e \<Rightarrow> Inl e
      | Inr names \<Rightarrow> read_frames d (sort names) f [])"

text \<open>Lines 114 to 131: the body of the \<^verbatim>\<open>try\<close>.\<close>

definition decode_try_body ::
  "('a, 'r) env \<Rightarrow> string list \<Rightarrow> bytes option \<Rightarrow> string \<Rightarrow> world \<Rightarrow> (error + bytes list) \<times> world"
where
  "decode_try_body env ffmpeg_args ffmpeg_stdin ffmpeg_dir w =
     (case popen_communicate env ffmpeg_args ffmpeg_stdin w of
        (Inl e, w') \<Rightarrow> (Inl e, w')
      | (Inr (ffmpeg_ret_code, stdout_data, stderr_data), w') \<Rightarrow>
          if ffmpeg_ret_code \<noteq> 0
          then (Inl (ValueError (decode_error_message (format_bytes env) ffmpeg_ret_code
                                   ffmpeg_args stdout_data stderr_data)), w')
          else (collect_frames ffmpeg_dir (filesys w'), w'))"

definition output_pattern :: "video \<Rightarrow> string \<Rightarrow> string" where
  "output_pattern self ffmpeg_dir = os_path_join ffmpeg_dir (''%010d.'' @ encoding_format self)"

definition ffmpeg_decode ::
  "video \<Rightarrow> ('a, 'r) env \<Rightarrow> 'a py_value \<Rightarrow> world \<Rightarrow> (error + bytes list) \<times> world"
where
  "ffmpeg_decode self env path_or_fobj w =
     (case decode_source path_or_fobj of
        Inl e \<Rightarrow> (Inl e, w)
      | Inr (first_args, ffmpeg_stdin) \<Rightarrow>
          (case tempfile_mkdtemp env w of
             (Inl e, w1) \<Rightarrow> (Inl e, w1)
           | (Inr ffmpeg_dir, w1) \<Rightarrow>
               (let ffmpeg_args =
                      first_args @ extra_ffmpeg_args self @ [output_pattern self ffmpeg_dir]
                in try_finally (decode_try_body env ffmpeg_args ffmpeg_stdin ffmpeg_dir w1)
                               (shutil_rmtree ffmpeg_dir))))"

text \<open>Lines 143 and 144: the body of the \<^verbatim>\<open>try\<close> of the local copy.\<close>

definition copy_then_decode ::
  "video \<Rightarrow> ('a, 'r) env \<Rightarrow> string \<Rightarrow> string \<Rightarrow> world \<Rightarrow> (error + bytes list) \<times> world"
where
  "copy_then_decode self env src video_temp_path w =
     (case gfile_Copy env src video_temp_path (filesys w) of
        (Some e, f') \<Rightarrow> (Inl e, w\<lparr>filesys := f'\<rparr>)
      | (None, f') \<Rightarrow> ffmpeg_decode self env (PyStr video_temp_path) (w\<lparr>filesys := f'\<rparr>))"

text \<open>The list \<^verbatim>\<open>_ffmpeg_decode\<close> returns, as the value \<^verbatim>\<open>encoded_video\<close>.\<close>

definition as_frames :: "(error + bytes list) \<times> world \<Rightarrow> (error + 'a encoded_video) \<times> world" where
  "as_frames r = (map_sum id FrameFiles (fst r), snd r)"

text \<open>
  Lines 137 to 148: the value handed to the base class, or the exception. The source tests
  for an array first, then for a string together with \<^verbatim>\<open>copy_locally\<close>, and sends
  everything else to \<^verbatim>\<open>_ffmpeg_decode\<close>; \<^verbatim>\<open>tempfile.mktemp\<close> is called before the
  \<^verbatim>\<open>try\<close>, \<^verbatim>\<open>os.unlink\<close> in its \<^verbatim>\<open>finally\<close> clause.
\<close>

definition encoded_video_of ::
  "video \<Rightarrow> ('a, 'r) env \<Rightarrow> 'a py_value \<Rightarrow> world \<Rightarrow> (error + 'a encoded_video) \<times> world"
where
  "encoded_video_of self env video_or_path_or_fobj w =
     (case video_or_path_or_fobj of
        NdArray a \<Rightarrow> (Inr (RawArray a), w)
      | PyStr p \<Rightarrow>
          if copy_locally self
          then (case tempfile_mktemp env w of
                  (Inl e, w1) \<Rightarrow> (Inl e, w1)
                | (Inr video_temp_path, w1) \<Rightarrow>
                    as_frames (try_finally (copy_then_decode self env p video_temp_path w1)
                                           (os_unlink video_temp_path)))
          else as_frames (ffmpeg_decode self env video_or_path_or_fobj w)
      | PyObj s r \<Rightarrow> as_frames (ffmpeg_decode self env video_or_path_or_fobj w))"

definition encode_example ::
  "video \<Rightarrow> ('a, 'r) env \<Rightarrow> 'a py_value \<Rightarrow> world \<Rightarrow> (error + 'r) \<times> world"
where
  "encode_example self env video_or_path_or_fobj w =
     (case encoded_video_of self env video_or_path_or_fobj w of
        (Inl e, w') \<Rightarrow> (Inl e, w')
      | (Inr encoded_video, w') \<Rightarrow> (sequence_encode_example env encoded_video, w'))"

subsection \<open>A sample environment\<close>

text \<open>
  The closed instances below run the connector in a small concrete environment:
  \<^item> \<open>std_copy\<close> copies a regular file to a name that is free, and otherwise raises
    without creating anything;
  \<^item> \<open>demo_ffmpeg\<close> stands for a decoder that reads its input (the file named after
    \<^verbatim>\<open>-i\<close>, or its standard input for \<^verbatim>\<open>pipe:0\<close>), exits with status 1 when the file is
    missing, and otherwise writes two frame files into the directory of its last
    argument, the second frame being enumerated first;
  \<^item> \<open>quiet_ffmpeg\<close> exits with status 0 and writes nothing;
  \<^item> temporary names are \<^verbatim>\<open>/tmp/tmp\<close> followed by as many \<^verbatim>\<open>x\<close> as the file system has
    entries.
\<close>

definition std_copy :: "string \<Rightarrow> string \<Rightarrow> filesystem \<Rightarrow> error option \<times> filesystem" where
  "std_copy src dst f =
     (case map_of f src of
        Some (File b) \<Rightarrow>
          if map_of f dst = None then (None, f @ [(dst, File b)])
          else (Some AlreadyExistsError, f)
      | _ \<Rightarrow> (Some NotFoundError, f))"

definition dirname :: "string \<Rightarrow> string" where
  "dirname p = rev (tl (dropWhile (\<lambda>c. c \<noteq> CHR ''/'') (rev p)))"

definition demo_ffmpeg :: "string list \<Rightarrow> bytes option \<Rightarrow> filesystem \<Rightarrow> proc_outcome" where
  "demo_ffmpeg args stdin_data f =
     (let src = args ! 2;
          out_dir = dirname (last args);
          input = (if src = ''pipe:0'' then stdin_data
                   else (case map_of f src of Some (File b) \<Rightarrow> Some b | _ \<Rightarrow> None))
      in case input of
           None \<Rightarrow> Exited 1 [] (src @ '': No such file or directory'') f
         | Some b \<Rightarrow>
             Exited 0 [] []
               (f @ [(out_dir @ ''/0000000002.png'', File (rev b)),
                     (out_dir @ ''/0000000001.png'', File b)]))"

definition quiet_ffmpeg :: "string list \<Rightarrow> bytes option \<Rightarrow> filesystem \<Rightarrow> proc_outcome" where
  "quiet_ffmpeg args stdin_data f = Exited 0 [] [] f"

definition demo_env :: "(nat list, nat list encoded_video) env" where
  "demo_env =
     \<lparr>run_process = demo_ffmpeg,
      gfile_Copy = std_copy,
      tmp_candidate = (\<lambda>f. ''/tmp/tmp'' @ replicate (length f) CHR ''x''),
      format_bytes = (\<lambda>b. b),
      sequence_encode_example = Inr\<rparr>"

definition quiet_env :: "(nat list, nat list encoded_video) env" where
  "quiet_env = demo_env\<lparr>run_process := quiet_ffmpeg\<rparr>"

definition demo_world :: world where
  "demo_world =
     \<lparr>filesys = [(''/tmp'', Dir), (''/videos'', Dir), (''/videos/a.mkv'', File ''AB'')],
      popen_log = []\<rparr>"

definition demo_video :: video where
  "demo_video = \<lparr>copy_locally = False, encoding_format = ''png'', extra_ffmpeg_args = [''-an'']\<rparr>"

text \<open>The sample decoder, its resulting file system enumerated in reverse.\<close>

definition shuffled_ffmpeg :: "string list \<Rightarrow> bytes option \<Rightarrow> filesystem \<Rightarrow> proc_outcome" where
  "shuffled_ffmpeg args stdin_data f =
     (case demo_ffmpeg args stdin_data f of
        Exited rc out err f' \<Rightarrow> Exited rc out err (rev f')
      | SpawnFailed e \<Rightarrow> SpawnFailed e)"

text \<open>The file system the sample decoder leaves for \<^verbatim>\<open>/videos/a.mkv\<close>.\<close>

definition demo_decoded :: filesystem where
  "demo_decoded =
     filesys demo_world @
     [(''/tmp/tmpxxx'', Dir),
      (''/tmp/tmpxxx/0000000002.png'', File ''BA''),
      (''/tmp/tmpxxx/0000000001.png'', File ''AB'')]"

text \<open>A decoder that accepts only inputs whose name ends in \<^verbatim>\<open>.mkv\<close>.\<close>

definition picky_ffmpeg :: "string list \<Rightarrow> bytes option \<Rightarrow> filesystem \<Rightarrow> proc_outcome" where
  "picky_ffmpeg args stdin_data f =
     (if suffix ''.mkv'' (args ! 2) then demo_ffmpeg args stdin_data f
      else Exited 1 [] (args ! 2 @ '': Invalid data found when processing input'') f)"

definition picky_env :: "(nat list, nat list encoded_video) env" where
  "picky_env = demo_env\<lparr>run_process := picky_ffmpeg\<rparr>"

text \<open>The sample connector with \<^verbatim>\<open>copy_locally\<close> set.\<close>

definition copying_video :: video where
  "copying_video = demo_video\<lparr>copy_locally := True\<rparr>"

text \<open>The file systems after the local copy of \<^verbatim>\<open>/videos/a.mkv\<close>, and after decoding it.\<close>

definition demo_copied :: filesystem where
  "demo_copied = filesys demo_world @ [(''/tmp/tmpxxx'', File ''AB'')]"

definition demo_decoded_copy :: filesystem where
  "demo_decoded_copy =
     demo_copied @
     [(''/tmp/tmpxxxx'', Dir),
      (''/tmp/tmpxxxx/0000000002.png'', File ''BA''),
      (''/tmp/tmpxxxx/0000000001.png'', File ''AB'')]"

text \<open>
  Two decoders that do not leave their output directory as a decoder should:
  \<open>subdir_ffmpeg\<close> exits with status 0 after creating a subdirectory in it, and
  \<open>vandal_ffmpeg\<close> exits with status 1 after removing it.
\<close>

definition subdir_ffmpeg :: "string list \<Rightarrow> bytes option \<Rightarrow> filesystem \<Rightarrow> proc_outcome" where
  "subdir_ffmpeg args stdin_data f = Exited 0 [] [] (f @ [(dirname (last args) @ ''/thumbs'', Dir)])"

definition vandal_ffmpeg :: "string list \<Rightarrow> bytes option \<Rightarrow> filesystem \<Rightarrow> proc_outcome" where
  "vandal_ffmpeg args stdin_data f =
     Exited 1 [] ''Conversion failed!'' (filter (\<lambda>(q, n). q \<noteq> dirname (last args)) f)"

definition subdir_env :: "(nat list, nat list encoded_video) env" where
  "subdir_env = demo_env\<lparr>run_process := subdir_ffmpeg\<rparr>"

definition vandal_env :: "(nat list, nat list encoded_video) env" where
  "vandal_env = demo_env\<lparr>run_process := vandal_ffmpeg\<rparr>"

section \<open>Unfolding the model\<close>

text \<open>The definitions a closed instance evaluates.\<close>

lemmas os_defs = ffmpeg_decode_def decode_source_def tempfile_mkdtemp_def tempfile_mktemp_def
  try_finally_def decode_try_body_def popen_communicate_def shutil_rmtree_def os_unlink_def
  collect_frames_def os_listdir_def open_read_def os_path_join_def child_name_def under_def
  output_pattern_def ffmpeg_path_def List.map_filter_def copy_then_decode_def
  encoded_video_of_def encode_example_def as_frames_def

lemma popen_log_rmtree: "popen_log (snd (shutil_rmtree d w)) = popen_log w"
  by (simp add: shutil_rmtree_def split: option.splits node.splits)

lemma snd_try_finally: "snd (try_finally body cleanup) = snd (cleanup (snd body))"
  by (simp add: try_finally_def split: prod.splits sum.splits)

lemma fst_try_finally:
  "fst (try_finally body cleanup) =
     (case fst (cleanup (snd body)) of Inl e \<Rightarrow> Inl e | Inr u \<Rightarrow> fst body)"
  by (simp add: try_finally_def split: prod.splits sum.splits)

lemma mkdtemp_Inr:
  "tempfile_mkdtemp env w = (Inr d, w1) \<longleftrightarrow>
     d = tmp_candidate env (filesys w) \<and> map_of (filesys w) d = None \<and>
     w1 = w\<lparr>filesys := filesys w @ [(d, Dir)]\<rparr>"
  by (auto simp add: tempfile_mkdtemp_def Let_def)

lemma ffmpeg_decode_unfold:
  assumes "decode_source v = Inr (first_args, sin)"
    and "tempfile_mkdtemp env w = (Inr d, w1)"
  shows "ffmpeg_decode self env v w =
           try_finally
             (decode_try_body env (first_args @ extra_ffmpeg_args self @ [output_pattern self d])
                sin d w1)
             (shutil_rmtree d)"
  using assms by (simp add: ffmpeg_decode_def Let_def)

lemma popen_log_try_body:
  "popen_log (snd (decode_try_body env args sin d w)) = popen_log w @ [args]"
  by (simp add: decode_try_body_def popen_communicate_def Let_def split: proc_outcome.splits)

lemma try_body_Exited:
  assumes "run_process env args sin (filesys w) = Exited rc out err f2"
  shows "decode_try_body env args sin d w =
           (if rc \<noteq> 0
            then Inl (ValueError (decode_error_message (format_bytes env) rc args out err))
            else collect_frames d f2,
            w\<lparr>popen_log := popen_log w @ [args], filesys := f2\<rparr>)"
  using assms by (simp add: decode_try_body_def popen_communicate_def Let_def)

lemma rmtree_ok:
  "map_of (filesys w) d = Some Dir \<Longrightarrow>
     shutil_rmtree d w = (Inr (), w\<lparr>filesys := filter (\<lambda>(q, n). \<not> under d q) (filesys w)\<rparr>)"
  by (simp add: shutil_rmtree_def)

lemma rmtree_fails:
  "map_of (filesys w) d \<noteq> Some Dir \<Longrightarrow> shutil_rmtree d w = (Inl OSError, w)"
  by (simp add: shutil_rmtree_def split: option.splits node.splits)

lemma listdir_Inr_dir: "os_listdir d f = Inr names \<Longrightarrow> map_of f d = Some Dir"
  by (simp add: os_listdir_def split: option.splits node.splits)

lemma rmtree_not_dir: "map_of (filesys (snd (shutil_rmtree d w))) d \<noteq> Some Dir"
proof (cases "map_of (filesys w) d = Some Dir")
  case True
  have "d \<notin> fst ` set (filter (\<lambda>(q, n). \<not> under d q) (filesys w))"
    by (auto simp add: under_def)
  then have "map_of (filter (\<lambda>(q, n). \<not> under d q) (filesys w)) d = None"
    by (simp add: map_of_eq_None_iff)
  with True show ?thesis by (simp add: rmtree_ok)
next
  case False
  then show ?thesis by (simp add: rmtree_fails)
qed

lemma snd_ffmpeg_decode:
  assumes "decode_source v = Inr (first_args, sin)"
    and "tempfile_mkdtemp env w = (Inr d, w1)"
  shows "snd (ffmpeg_decode self env v w) =
           snd (shutil_rmtree d
                  (snd (decode_try_body env
                          (first_args @ extra_ffmpeg_args self @ [output_pattern self d]) sin d w1)))"
  by (simp add: ffmpeg_decode_unfold [OF assms] snd_try_finally)

lemma popen_log_ffmpeg_decode:
  assumes "decode_source v = Inr (first_args, sin)"
    and "tempfile_mkdtemp env w = (Inr d, w1)"
  shows "popen_log (snd (ffmpeg_decode self env v w)) =
           popen_log w @ [first_args @ extra_ffmpeg_args self @ [output_pattern self d]]"
proof -
  have "popen_log w1 = popen_log w"
    using assms(2) by (auto simp add: mkdtemp_Inr)
  then show ?thesis
    by (simp add: snd_ffmpeg_decode [OF assms] popen_log_rmtree popen_log_try_body)
qed

lemma collect_Inr_dir: "collect_frames d f = Inr frames \<Longrightarrow> map_of f d = Some Dir"
  by (auto simp add: collect_frames_def split: sum.splits dest: listdir_Inr_dir)

lemma message_has_code: "sublist (str_int rc) (decode_error_message fmt rc args out err)"
  unfolding decode_error_message_def by (rule sublist_appendI)

lemma message_has_command: "sublist (str_join '' '' args) (decode_error_message fmt rc args out err)"
proof -
  have "decode_error_message fmt rc args out err =
      (''ffmpeg returned error code '' @ str_int rc @ '', command='') @ str_join '' '' args @
      ([newline] @ ''stdout='' @ fmt out @ [newline] @ ''stderr='' @ fmt err @ [newline])"
    by (simp add: decode_error_message_def)
  then show ?thesis by (simp only: sublist_appendI)
qed

lemma message_has_stdout: "sublist (fmt out) (decode_error_message fmt rc args out err)"
proof -
  have "decode_error_message fmt rc args out err =
      (''ffmpeg returned error code '' @ str_int rc @ '', command='' @ str_join '' '' args @
       [newline] @ ''stdout='') @ fmt out @ ([newline] @ ''stderr='' @ fmt err @ [newline])"
    by (simp add: decode_error_message_def)
  then show ?thesis by (simp only: sublist_appendI)
qed

lemma message_has_stderr: "sublist (fmt err) (decode_error_message fmt rc args out err)"
proof -
  have "decode_error_message fmt rc args out err =
      (''ffmpeg returned error code '' @ str_int rc @ '', command='' @ str_join '' '' args @
       [newline] @ ''stdout='' @ fmt out @ [newline] @ ''stderr='') @ fmt err @ [newline]"
    by (simp add: decode_error_message_def)
  then show ?thesis by (simp only: sublist_appendI)
qed

lemma fst_ffmpeg_decode_Exited:
  assumes "decode_source v = Inr (first_args, sin)"
    and "tempfile_mkdtemp env w = (Inr d, w1)"
    and "run_process env (first_args @ extra_ffmpeg_args self @ [output_pattern self d]) sin
           (filesys w1) = Exited rc out err f2"
    and "map_of f2 d = Some Dir"
  shows "fst (ffmpeg_decode self env v w) =
           (if rc \<noteq> 0
            then Inl (ValueError (decode_error_message (format_bytes env) rc
                        (first_args @ extra_ffmpeg_args self @ [output_pattern self d]) out err))
            else collect_frames d f2)"
  using assms(4)
  by (simp add: ffmpeg_decode_unfold [OF assms(1,2)] try_body_Exited [OF assms(3)]
      fst_try_finally rmtree_ok)

lemma decode_source_path:
  "decode_source (PyStr p :: 'a py_value) = Inr ([''ffmpeg'', ''-i'', p], None)"
  by (simp add: decode_source_def ffmpeg_path_def)

lemma read_frames_cong:
  "map_of f' = map_of f \<Longrightarrow> read_frames d ns f' images = read_frames d ns f images"
proof (induction ns arbitrary: images)
  case Nil
  then show ?case by simp
next
  case (Cons n ns)
  have "open_read (os_path_join d n) f' = open_read (os_path_join d n) f"
    using Cons.prems by (simp add: open_read_def)
  with Cons show ?case
    by (cases "open_read (os_path_join d n) f") simp_all
qed

lemma map_of_permuted:
  assumes "mset f' = mset f" and "distinct (map fst f)"
  shows "map_of f' = map_of f"
proof -
  have "mset (map fst f') = mset (map fst f)"
    using assms(1) by simp
  then have "distinct (map fst f')"
    using assms(2) by (metis mset_eq_imp_distinct_iff)
  moreover have "set f' = set f"
    using assms(1) by (rule mset_eq_setD)
  ultimately show ?thesis
    using assms(2) by (simp add: map_of_inject_set)
qed

lemma sort_permuted: "mset xs = mset ys \<Longrightarrow> sort xs = sort (ys :: 'a :: linorder list)"
  by (rule properties_for_sort) simp_all

lemma listing_permuted:
  "mset f' = mset f \<Longrightarrow> mset (List.map_filter g f') = mset (List.map_filter g f)"
proof -
  assume eq: "mset f' = mset f"
  have "mset (List.map_filter g h) =
      image_mset (the \<circ> g) (filter_mset (\<lambda>x. g x \<noteq> None) (mset h))" for h
    by (simp add: List.map_filter_def)
  then show ?thesis by (simp only: eq)
qed

lemma collect_frames_permuted:
  assumes "mset f' = mset f" and "distinct (map fst f)"
  shows "collect_frames d f' = collect_frames d f"
proof -
  have m: "map_of f' = map_of f"
    using assms by (rule map_of_permuted)
  have "sort (List.map_filter (\<lambda>(p, n). child_name d p) f') =
        sort (List.map_filter (\<lambda>(p, n). child_name d p) f)"
    using assms(1) by (intro sort_permuted listing_permuted)
  then show ?thesis
    by (simp add: collect_frames_def os_listdir_def m read_frames_cong [OF m]
        split: option.splits node.splits)
qed

lemma fst_ffmpeg_decode_zero:
  assumes "decode_source v = Inr (first_args, sin)"
    and "tempfile_mkdtemp env w = (Inr d, w1)"
    and "run_process env (first_args @ extra_ffmpeg_args self @ [output_pattern self d]) sin
           (filesys w1) = Exited 0 out err f2"
  shows "fst (ffmpeg_decode self env v w) =
           (if map_of f2 d = Some Dir then collect_frames d f2 else Inl OSError)"
  by (simp add: ffmpeg_decode_unfold [OF assms(1,2)] try_body_Exited [OF assms(3)]
      fst_try_finally rmtree_ok rmtree_fails)

lemma read_frames_nodes:
  "read_frames d ns f images = Inr frames \<Longrightarrow>
     \<exists>bs. frames = images @ bs \<and>
          map (\<lambda>n. map_of f (os_path_join d n)) ns = map (\<lambda>b. Some (File b)) bs"
proof (induction ns arbitrary: images)
  case Nil
  then show ?case by simp
next
  case (Cons n ns)
  from Cons.prems obtain b where b: "open_read (os_path_join d n) f = Inr b"
    and rest: "read_frames d ns f (images @ [b]) = Inr frames"
    by (cases "open_read (os_path_join d n) f") simp_all
  from b have node: "map_of f (os_path_join d n) = Some (File b)"
    by (simp add: open_read_def split: option.splits node.splits)
  from Cons.IH [OF rest] obtain bs where "frames = (images @ [b]) @ bs"
    and "map (\<lambda>n. map_of f (os_path_join d n)) ns = map (\<lambda>b. Some (File b)) bs"
    by blast
  with node have "frames = images @ (b # bs) \<and>
      map (\<lambda>n. map_of f (os_path_join d n)) (n # ns) = map (\<lambda>b. Some (File b)) (b # bs)"
    by simp
  then show ?case by blast
qed

lemma collect_frames_nodes:
  assumes "collect_frames d f = Inr frames"
  shows "\<exists>names. os_listdir d f = Inr names \<and>
           map (\<lambda>n. map_of f (os_path_join d n)) (sort names) = map (\<lambda>b. Some (File b)) frames"
proof (cases "os_listdir d f")
  case (Inl e)
  with assms show ?thesis by (simp add: collect_frames_def)
next
  case (Inr names)
  with assms have "read_frames d (sort names) f [] = Inr frames"
    by (simp add: collect_frames_def)
  from read_frames_nodes [OF this] Inr show ?thesis by simp
qed

lemma mkdtemp_run_process_update:
  "tempfile_mkdtemp (env\<lparr>run_process := rp\<rparr>) w = tempfile_mkdtemp env w"
  by (simp add: tempfile_mkdtemp_def)

lemma mktemp_Inr:
  "tempfile_mktemp env w = (Inr t, w1) \<longleftrightarrow>
     t = tmp_candidate env (filesys w) \<and> map_of (filesys w) t = None \<and> w1 = w"
  by (auto simp add: tempfile_mktemp_def Let_def)

lemma unlink_no_file: "map_of (filesys (snd (os_unlink t w))) t \<noteq> Some (File b)"
proof (cases "\<exists>c. map_of (filesys w) t = Some (File c)")
  case True
  have "t \<notin> fst ` set (filter (\<lambda>(q, n). q \<noteq> t) (filesys w))"
    by auto
  then have "map_of (filter (\<lambda>(q, n). q \<noteq> t) (filesys w)) t = None"
    by (simp add: map_of_eq_None_iff)
  with True show ?thesis by (auto simp add: os_unlink_def)
next
  case False
  then show ?thesis
    by (auto simp add: os_unlink_def split: option.splits node.splits)
qed

lemma encode_example_local_copy:
  assumes "copy_locally self" and "tempfile_mktemp env w = (Inr t, w1)"
  shows "encode_example self env (PyStr p) w =
           (case try_finally (copy_then_decode self env p t w1) (os_unlink t) of
              (Inl e, w') \<Rightarrow> (Inl e, w')
            | (Inr frames, w') \<Rightarrow> (sequence_encode_example env (FrameFiles frames), w'))"
  using assms
  by (cases "try_finally (copy_then_decode self env p t w1) (os_unlink t)";
      cases "fst (try_finally (copy_then_decode self env p t w1) (os_unlink t))")
    (simp_all add: encode_example_def encoded_video_of_def as_frames_def)

lemma fst_encode_example_local_copy:
  assumes "copy_locally self" and "tempfile_mktemp env w = (Inr t, w1)"
  shows "fst (encode_example self env (PyStr p) w) =
           (case fst (try_finally (copy_then_decode self env p t w1) (os_unlink t)) of
              Inl e \<Rightarrow> Inl e
            | Inr frames \<Rightarrow> sequence_encode_example env (FrameFiles frames))"
  by (cases "try_finally (copy_then_decode self env p t w1) (os_unlink t)";
      cases "fst (try_finally (copy_then_decode self env p t w1) (os_unlink t))")
    (simp_all add: encode_example_local_copy [OF assms])

lemma ffmpeg_decode_copy_update:
  "ffmpeg_decode (self\<lparr>copy_locally := c\<rparr>) env v w = ffmpeg_decode self env v w"
  by (simp add: ffmpeg_decode_def output_pattern_def Let_def split: sum.splits prod.splits)

lemma filesys_ffmpeg_decode_Exited:
  assumes "decode_source v = Inr (first_args, sin)"
    and "tempfile_mkdtemp env w = (Inr d, w1)"
    and "run_process env (first_args @ extra_ffmpeg_args self @ [output_pattern self d]) sin
           (filesys w1) = Exited rc out err f2"
    and "map_of f2 d = Some Dir"
  shows "filesys (snd (ffmpeg_decode self env v w)) = filter (\<lambda>(q, n). \<not> under d q) f2"
  using assms(4)
  by (simp add: ffmpeg_decode_unfold [OF assms(1,2)] try_body_Exited [OF assms(3)]
      snd_try_finally rmtree_ok)

lemma encode_example_direct:
  assumes "\<not> copy_locally self"
  shows "fst (encode_example self (env :: ('a, 'r) env) (PyStr p) w) =
           (case fst (ffmpeg_decode self env (PyStr p) w) of
              Inl e \<Rightarrow> Inl e
            | Inr frames \<Rightarrow> sequence_encode_example env (FrameFiles frames))"
  using assms
  by (cases "ffmpeg_decode self env (PyStr p :: 'a py_value) w";
      cases "fst (ffmpeg_decode self env (PyStr p :: 'a py_value) w)")
    (simp_all add: encode_example_def encoded_video_of_def as_frames_def)

subsection \<open>Facts about the sample environment\<close>

lemmas demo_defs = demo_env_def quiet_env_def demo_world_def demo_video_def demo_ffmpeg_def
  quiet_ffmpeg_def std_copy_def dirname_def

lemma demo_mkdtemp:
  "tempfile_mkdtemp demo_env demo_world =
     (Inr ''/tmp/tmpxxx'', demo_world\<lparr>filesys := filesys demo_world @ [(''/tmp/tmpxxx'', Dir)]\<rparr>)"
  by (simp add: tempfile_mkdtemp_def demo_defs Let_def)

lemma demo_run_missing:
  "run_process demo_env
     ([''ffmpeg'', ''-i'', ''/videos/missing.mkv''] @ extra_ffmpeg_args demo_video @
      [output_pattern demo_video ''/tmp/tmpxxx''])
     None (filesys (demo_world\<lparr>filesys := filesys demo_world @ [(''/tmp/tmpxxx'', Dir)]\<rparr>)) =
   Exited 1 [] ''/videos/missing.mkv: No such file or directory''
     (filesys demo_world @ [(''/tmp/tmpxxx'', Dir)])"
  by (simp add: demo_defs output_pattern_def os_path_join_def Let_def)


lemma demo_collect_missing:
  "collect_frames ''/tmp/tmpxxx'' (filesys demo_world @ [(''/tmp/tmpxxx'', Dir)]) = Inr []"
  by (simp add: collect_frames_def os_listdir_def child_name_def List.map_filter_def demo_defs)

lemma demo_run_present:
  "run_process demo_env
     ([''ffmpeg'', ''-i'', ''/videos/a.mkv''] @ extra_ffmpeg_args demo_video @
      [output_pattern demo_video ''/tmp/tmpxxx''])
     None (filesys (demo_world\<lparr>filesys := filesys demo_world @ [(''/tmp/tmpxxx'', Dir)]\<rparr>)) =
   Exited 0 [] [] demo_decoded"
  by (simp add: demo_defs demo_decoded_def output_pattern_def os_path_join_def Let_def)

lemma demo_decode_present:
  "fst (ffmpeg_decode demo_video demo_env (PyStr ''/videos/a.mkv'') demo_world) =
     Inr [''AB'', ''BA'']"
  by (simp add: os_defs demo_defs Let_def)

lemma demo_mktemp: "tempfile_mktemp demo_env demo_world = (Inr ''/tmp/tmpxxx'', demo_world)"
  by (simp add: tempfile_mktemp_def demo_defs Let_def)

lemma demo_copy:
  "gfile_Copy demo_env ''/videos/a.mkv'' ''/tmp/tmpxxx'' (filesys demo_world) =
     (None, demo_copied)"
  by (simp add: demo_defs demo_copied_def)

lemma demo_collect_present: "collect_frames ''/tmp/tmpxxx'' demo_decoded = Inr [''AB'', ''BA'']"
  by (simp add: demo_decoded_def demo_world_def collect_frames_def os_listdir_def
      child_name_def List.map_filter_def open_read_def os_path_join_def)

lemma demo_mkdtemp_copy:
  "tempfile_mkdtemp demo_env (demo_world\<lparr>filesys := demo_copied\<rparr>) =
     (Inr ''/tmp/tmpxxxx'', demo_world\<lparr>filesys := demo_copied @ [(''/tmp/tmpxxxx'', Dir)]\<rparr>)"
  by (simp add: tempfile_mkdtemp_def demo_defs demo_copied_def Let_def)

lemma demo_run_copy:
  "run_process demo_env
     ([''ffmpeg'', ''-i'', ''/tmp/tmpxxx''] @ extra_ffmpeg_args demo_video @
      [output_pattern demo_video ''/tmp/tmpxxxx''])
     None (filesys (demo_world\<lparr>filesys := demo_copied @ [(''/tmp/tmpxxxx'', Dir)]\<rparr>)) =
   Exited 0 [] [] demo_decoded_copy"
  by (simp add: demo_defs demo_copied_def demo_decoded_copy_def output_pattern_def
      os_path_join_def Let_def)

lemma demo_collect_copy:
  "collect_frames ''/tmp/tmpxxxx'' demo_decoded_copy = Inr [''AB'', ''BA'']"
  by (simp add: demo_decoded_copy_def demo_copied_def demo_world_def collect_frames_def
      os_listdir_def child_name_def List.map_filter_def open_read_def os_path_join_def)

section \<open>Properties\<close>

text \<open>
  Claim C1, as the code has it. When the decoder exits with status zero and the listing
  of the temporary directory is empty, \<^verbatim>\<open>_ffmpeg_decode\<close> returns the empty list of
  frames: the loop of lines 128 to 130 runs zero times and nothing checks the count.
\<close>

theorem ffmpeg_decode_no_frames:
  assumes "decode_source v = Inr (first_args, sin)"
    and "tempfile_mkdtemp env w = (Inr d, w1)"
    and "run_process env (first_args @ extra_ffmpeg_args self @ [output_pattern self d]) sin
           (filesys w1) = Exited 0 out err f2"
    and "os_listdir d f2 = Inr []"
  shows "fst (ffmpeg_decode self env v w) = Inr []"
proof -
  have "map_of f2 d = Some Dir"
    using assms(4) by (rule listdir_Inr_dir)
  moreover have "collect_frames d f2 = Inr []"
    using assms(4) by (simp add: collect_frames_def)
  ultimately show ?thesis
    by (simp add: ffmpeg_decode_unfold [OF assms(1,2)] try_body_Exited [OF assms(3)]
        fst_try_finally rmtree_ok)
qed

text \<open>The hypotheses of the theorem above hold for the decoder that writes nothing.\<close>

theorem ffmpeg_decode_no_frames_witness:
  "decode_source (PyStr ''/videos/a.mkv'' :: nat list py_value) =
     Inr ([''ffmpeg'', ''-i'', ''/videos/a.mkv''], None) \<and>
   tempfile_mkdtemp quiet_env demo_world =
     (Inr ''/tmp/tmpxxx'', demo_world\<lparr>filesys := filesys demo_world @ [(''/tmp/tmpxxx'', Dir)]\<rparr>) \<and>
   run_process quiet_env
     ([''ffmpeg'', ''-i'', ''/videos/a.mkv''] @ extra_ffmpeg_args demo_video @
      [output_pattern demo_video ''/tmp/tmpxxx''])
     None (filesys demo_world @ [(''/tmp/tmpxxx'', Dir)]) =
     Exited 0 [] [] (filesys demo_world @ [(''/tmp/tmpxxx'', Dir)]) \<and>
   os_listdir ''/tmp/tmpxxx'' (filesys demo_world @ [(''/tmp/tmpxxx'', Dir)]) = Inr [] \<and>
   fst (ffmpeg_decode demo_video quiet_env (PyStr ''/videos/a.mkv'') demo_world) = Inr []"
proof -
  have h1: "decode_source (PyStr ''/videos/a.mkv'' :: nat list py_value) =
     Inr ([''ffmpeg'', ''-i'', ''/videos/a.mkv''], None)"
    by (simp add: decode_source_def ffmpeg_path_def)
  have h2: "tempfile_mkdtemp quiet_env demo_world =
     (Inr ''/tmp/tmpxxx'', demo_world\<lparr>filesys := filesys demo_world @ [(''/tmp/tmpxxx'', Dir)]\<rparr>)"
    by (simp add: tempfile_mkdtemp_def demo_defs Let_def)
  have h3: "run_process quiet_env
     ([''ffmpeg'', ''-i'', ''/videos/a.mkv''] @ extra_ffmpeg_args demo_video @
      [output_pattern demo_video ''/tmp/tmpxxx''])
     None (filesys (demo_world\<lparr>filesys := filesys demo_world @ [(''/tmp/tmpxxx'', Dir)]\<rparr>)) =
     Exited 0 [] [] (filesys demo_world @ [(''/tmp/tmpxxx'', Dir)])"
    by (simp add: demo_defs)
  have h4: "os_listdir ''/tmp/tmpxxx'' (filesys demo_world @ [(''/tmp/tmpxxx'', Dir)]) = Inr []"
    by (simp add: os_listdir_def child_name_def List.map_filter_def demo_defs)
  from ffmpeg_decode_no_frames [OF h1 h2 h3 h4] h1 h2 h3 h4 show ?thesis by simp
qed

text \<open>
  Claim C1, as stated, asks for a consistency error in that situation. With the decoder
  that exits with status zero and writes nothing, the call returns \<open>Inr []\<close>, which is
  not an error.
\<close>

theorem ffmpeg_decode_no_frames_counterexample:
  "run_process quiet_env
     [''ffmpeg'', ''-i'', ''/videos/a.mkv'', ''-an'', ''/tmp/tmpxxx/%010d.png''] None
     (filesys demo_world @ [(''/tmp/tmpxxx'', Dir)]) =
     Exited 0 [] [] (filesys demo_world @ [(''/tmp/tmpxxx'', Dir)]) \<and>
   os_listdir ''/tmp/tmpxxx'' (filesys demo_world @ [(''/tmp/tmpxxx'', Dir)]) = Inr [] \<and>
   ffmpeg_decode demo_video quiet_env (PyStr ''/videos/a.mkv'') demo_world =
     (Inr [],
      demo_world\<lparr>popen_log :=
        [[''ffmpeg'', ''-i'', ''/videos/a.mkv'', ''-an'', ''/tmp/tmpxxx/%010d.png'']]\<rparr>)"
  by (simp add: os_defs demo_defs Let_def)

text \<open>
  Claim C2. A value that is neither an array, nor a string, nor a readable stream is one
  whose \<^verbatim>\<open>seek(0)\<close> or \<^verbatim>\<open>read()\<close> raises. \<^verbatim>\<open>encode_example\<close> then raises that
  exception and the world is the one it started in: line 106 and line 107 come before
  \<^verbatim>\<open>tempfile.mkdtemp\<close> and before \<^verbatim>\<open>subprocess.Popen\<close>, with \<^verbatim>\<open>copy_locally\<close>
  set or not.
\<close>

theorem encode_example_unrecognised:
  "\<not> is_ndarray v \<Longrightarrow> \<not> is_string v \<Longrightarrow> \<not> is_readable_stream v \<Longrightarrow>
     \<exists>e. encode_example self env v w = (Inl e, w)"
proof (cases v)
  case (PyObj s r)
  assume "\<not> is_readable_stream v"
  with PyObj have "\<exists>e. decode_source v = Inl e"
    by (cases s; cases r) (simp_all add: decode_source_def)
  then obtain e where "decode_source v = Inl e" ..
  with PyObj show ?thesis
    by (simp add: encode_example_def encoded_video_of_def as_frames_def ffmpeg_decode_def)
qed simp_all

text \<open>An instance: an object with neither method, such as an integer.\<close>

theorem encode_example_unrecognised_witness:
  "\<not> is_ndarray (PyObj (Some AttributeError) (Inl AttributeError) :: nat list py_value) \<and>
   \<not> is_string (PyObj (Some AttributeError) (Inl AttributeError) :: nat list py_value) \<and>
   \<not> is_readable_stream (PyObj (Some AttributeError) (Inl AttributeError) :: nat list py_value) \<and>
   (\<exists>e. encode_example (demo_video\<lparr>copy_locally := True\<rparr>) demo_env
           (PyObj (Some AttributeError) (Inl AttributeError)) demo_world = (Inl e, demo_world))"
  using encode_example_unrecognised
    [of "PyObj (Some AttributeError) (Inl AttributeError)"
        "demo_video\<lparr>copy_locally := True\<rparr>" demo_env demo_world]
  by simp

text \<open>
  Claim C3, as the code has it. With \<^verbatim>\<open>copy_locally\<close> set and the temporary name \<open>t\<close>
  drawn, no regular file is left at \<open>t\<close> after \<^verbatim>\<open>encode_example\<close>, whether the copy and
  the decoding succeeded or raised. When \<^verbatim>\<open>os.unlink\<close> succeeds, the caller gets the
  outcome of the copy and the decoding: their exception, or the encoded frames. When
  \<^verbatim>\<open>os.unlink\<close> itself raises, its exception is the one the caller gets, in place of
  any exception of the copy or the decoding.
\<close>

theorem encode_example_local_copy_cleanup:
  assumes "copy_locally self" and "tempfile_mktemp env w = (Inr t, w1)"
  shows "(\<forall>b. map_of (filesys (snd (encode_example self env (PyStr p) w))) t \<noteq> Some (File b)) \<and>
         (fst (os_unlink t (snd (copy_then_decode self env p t w1))) = Inr () \<longrightarrow>
            fst (encode_example self env (PyStr p) w) =
              (case fst (copy_then_decode self env p t w1) of
                 Inl e \<Rightarrow> Inl e
               | Inr frames \<Rightarrow> sequence_encode_example env (FrameFiles frames))) \<and>
         (\<forall>e. fst (os_unlink t (snd (copy_then_decode self env p t w1))) = Inl e \<longrightarrow>
            fst (encode_example self env (PyStr p) w) = Inl e)"
proof -
  let ?body = "copy_then_decode self env p t w1"
  let ?tf = "try_finally ?body (os_unlink t)"
  note enc = encode_example_local_copy [OF assms, of p]
  have world: "snd (encode_example self env (PyStr p) w) = snd (os_unlink t (snd ?body))"
    by (cases ?tf; cases "fst ?tf") (simp_all add: enc flip: snd_try_finally)
  note result = fst_encode_example_local_copy [OF assms, of p]
  have gone: "\<forall>b. map_of (filesys (snd (encode_example self env (PyStr p) w))) t \<noteq> Some (File b)"
    by (simp add: world unlink_no_file)
  have ok: "fst (encode_example self env (PyStr p) w) =
      (case fst ?body of Inl e \<Rightarrow> Inl e
       | Inr frames \<Rightarrow> sequence_encode_example env (FrameFiles frames))"
    if "fst (os_unlink t (snd ?body)) = Inr ()"
    using that by (simp add: result fst_try_finally)
  have masked: "fst (encode_example self env (PyStr p) w) = Inl e"
    if "fst (os_unlink t (snd ?body)) = Inl e" for e
    using that by (simp add: result fst_try_finally)
  from gone ok masked show ?thesis by blast
qed

text \<open>An instance in which the copy, the decoding and the removal all succeed.\<close>

theorem encode_example_local_copy_cleanup_witness:
  "copy_locally copying_video \<and>
   tempfile_mktemp demo_env demo_world = (Inr ''/tmp/tmpxxx'', demo_world) \<and>
   map_of (filesys (snd (encode_example copying_video demo_env (PyStr ''/videos/a.mkv'')
                           demo_world))) ''/tmp/tmpxxx'' = None \<and>
   fst (os_unlink ''/tmp/tmpxxx''
          (snd (copy_then_decode copying_video demo_env ''/videos/a.mkv'' ''/tmp/tmpxxx''
                  demo_world))) = Inr () \<and>
   fst (copy_then_decode copying_video demo_env ''/videos/a.mkv'' ''/tmp/tmpxxx'' demo_world) =
     Inr [''AB'', ''BA''] \<and>
   fst (encode_example copying_video demo_env (PyStr ''/videos/a.mkv'') demo_world) =
     sequence_encode_example demo_env (FrameFiles [''AB'', ''BA''])"
proof -
  have h1: "copy_locally copying_video"
    by (simp add: copying_video_def demo_video_def)
  have h2: "tempfile_mktemp demo_env demo_world = (Inr ''/tmp/tmpxxx'', demo_world)"
    by (simp add: tempfile_mktemp_def demo_defs Let_def)
  have body: "fst (copy_then_decode copying_video demo_env ''/videos/a.mkv'' ''/tmp/tmpxxx''
      demo_world) = Inr [''AB'', ''BA'']"
    by (simp add: os_defs demo_defs copying_video_def Let_def)
  have unlink: "fst (os_unlink ''/tmp/tmpxxx''
      (snd (copy_then_decode copying_video demo_env ''/videos/a.mkv'' ''/tmp/tmpxxx''
              demo_world))) = Inr ()"
    by (simp add: os_defs demo_defs copying_video_def Let_def)
  have final: "map_of (filesys (snd (encode_example copying_video demo_env
      (PyStr ''/videos/a.mkv'') demo_world))) ''/tmp/tmpxxx'' = None"
    by (simp add: os_defs demo_defs copying_video_def Let_def)
  from encode_example_local_copy_cleanup [OF h1 h2, of "''/videos/a.mkv''"]
    h1 h2 body unlink final
  show ?thesis by simp
qed

text \<open>
  Claim C3, as stated, says that a failing removal never replaces the original error. For
  a source that does not exist, \<^verbatim>\<open>tf.gfile.Copy\<close> raises \<open>NotFoundError\<close> and creates
  nothing; \<^verbatim>\<open>os.unlink\<close> in the \<^verbatim>\<open>finally\<close> clause then raises on the missing
  temporary file, and the caller gets that \<open>OSError\<close>.
\<close>

theorem encode_example_local_copy_cleanup_counterexample:
  "fst (copy_then_decode copying_video demo_env ''/videos/missing.mkv'' ''/tmp/tmpxxx''
          demo_world) = Inl NotFoundError \<and>
   fst (os_unlink ''/tmp/tmpxxx''
          (snd (copy_then_decode copying_video demo_env ''/videos/missing.mkv'' ''/tmp/tmpxxx''
                  demo_world))) = Inl OSError \<and>
   fst (encode_example copying_video demo_env (PyStr ''/videos/missing.mkv'') demo_world) =
     Inl OSError"
  by (simp add: os_defs demo_defs copying_video_def Let_def)

text \<open>
  Claim C4, as the code has it. Take a call in which the decoder ran and exited with status
  \<open>rc\<close>, leaving an output directory that can be listed and whose entries can be read.
  Then \<^verbatim>\<open>_ffmpeg_decode\<close> raises if and only if \<open>rc\<close> is not zero, and what it raises is
  a \<open>ValueError\<close> whose message contains the decimal exit code, the argument vector
  joined with spaces, and the captured standard output and standard error as
  \<^verbatim>\<open>format\<close> renders them.
\<close>

theorem ffmpeg_decode_error_iff_nonzero:
  assumes "decode_source v = Inr (first_args, sin)"
    and "tempfile_mkdtemp env w = (Inr d, w1)"
    and "run_process env (first_args @ extra_ffmpeg_args self @ [output_pattern self d]) sin
           (filesys w1) = Exited rc out err f2"
    and "collect_frames d f2 = Inr frames"
  shows "((\<exists>e. fst (ffmpeg_decode self env v w) = Inl e) \<longleftrightarrow> rc \<noteq> 0) \<and>
         (rc \<noteq> 0 \<longrightarrow>
            (\<exists>msg. fst (ffmpeg_decode self env v w) = Inl (ValueError msg) \<and>
               sublist (str_int rc) msg \<and>
               sublist (str_join '' '' (first_args @ extra_ffmpeg_args self @
                                         [output_pattern self d])) msg \<and>
               sublist (format_bytes env out) msg \<and>
               sublist (format_bytes env err) msg))"
proof -
  have dir: "map_of f2 d = Some Dir"
    using assms(4) by (rule collect_Inr_dir)
  note res = fst_ffmpeg_decode_Exited [OF assms(1,2,3) dir]
  show ?thesis
  proof (cases "rc = 0")
    case True
    with res assms(4) show ?thesis by simp
  next
    case False
    with res show ?thesis
      by (simp add: message_has_code message_has_command message_has_stdout message_has_stderr)
  qed
qed

text \<open>An instance: the sample decoder on a missing file.\<close>

theorem ffmpeg_decode_error_iff_nonzero_witness:
  "decode_source (PyStr ''/videos/missing.mkv'' :: nat list py_value) =
     Inr ([''ffmpeg'', ''-i'', ''/videos/missing.mkv''], None) \<and>
   tempfile_mkdtemp demo_env demo_world =
     (Inr ''/tmp/tmpxxx'', demo_world\<lparr>filesys := filesys demo_world @ [(''/tmp/tmpxxx'', Dir)]\<rparr>) \<and>
   run_process demo_env
     ([''ffmpeg'', ''-i'', ''/videos/missing.mkv''] @ extra_ffmpeg_args demo_video @
      [output_pattern demo_video ''/tmp/tmpxxx''])
     None (filesys (demo_world\<lparr>filesys := filesys demo_world @ [(''/tmp/tmpxxx'', Dir)]\<rparr>)) =
   Exited 1 [] ''/videos/missing.mkv: No such file or directory''
     (filesys demo_world @ [(''/tmp/tmpxxx'', Dir)]) \<and>
   collect_frames ''/tmp/tmpxxx'' (filesys demo_world @ [(''/tmp/tmpxxx'', Dir)]) = Inr [] \<and>
   (\<exists>e. fst (ffmpeg_decode demo_video demo_env (PyStr ''/videos/missing.mkv'') demo_world) =
      Inl e) \<and>
   (\<exists>msg. fst (ffmpeg_decode demo_video demo_env (PyStr ''/videos/missing.mkv'') demo_world) =
      Inl (ValueError msg) \<and>
      sublist (str_int 1) msg \<and>
      sublist (str_join '' '' ([''ffmpeg'', ''-i'', ''/videos/missing.mkv''] @
                 extra_ffmpeg_args demo_video @ [output_pattern demo_video ''/tmp/tmpxxx''])) msg \<and>
      sublist (format_bytes demo_env []) msg \<and>
      sublist (format_bytes demo_env ''/videos/missing.mkv: No such file or directory'') msg)"
  using ffmpeg_decode_error_iff_nonzero
    [OF decode_source_path demo_mkdtemp demo_run_missing demo_collect_missing]
    decode_source_path [of "''/videos/missing.mkv''", where ?'a = "nat list"]
    demo_mkdtemp demo_run_missing demo_collect_missing
  by simp

text \<open>
  Claim C4, as stated, holds for every decoder invocation. A decoder that exits with status
  0 and leaves a subdirectory in its output directory makes \<^verbatim>\<open>open\<close> at line 129 raise:
  an error with exit status zero. A decoder that exits with status 1 after removing its
  output directory makes \<^verbatim>\<open>shutil.rmtree\<close> in the \<^verbatim>\<open>finally\<close> clause raise, and that
  \<open>OSError\<close>, which carries none of the payload, replaces the \<open>ValueError\<close>.
\<close>

theorem ffmpeg_decode_error_iff_nonzero_counterexample:
  "run_process subdir_env
     [''ffmpeg'', ''-i'', ''/videos/a.mkv'', ''-an'', ''/tmp/tmpxxx/%010d.png''] None
     (filesys demo_world @ [(''/tmp/tmpxxx'', Dir)]) =
     Exited 0 [] []
       (filesys demo_world @ [(''/tmp/tmpxxx'', Dir), (''/tmp/tmpxxx/thumbs'', Dir)]) \<and>
   fst (ffmpeg_decode demo_video subdir_env (PyStr ''/videos/a.mkv'') demo_world) =
     Inl IOError \<and>
   run_process vandal_env
     [''ffmpeg'', ''-i'', ''/videos/a.mkv'', ''-an'', ''/tmp/tmpxxx/%010d.png''] None
     (filesys demo_world @ [(''/tmp/tmpxxx'', Dir)]) =
     Exited 1 [] ''Conversion failed!'' (filesys demo_world) \<and>
   fst (ffmpeg_decode demo_video vandal_env (PyStr ''/videos/a.mkv'') demo_world) =
     Inl OSError"
  by (simp add: os_defs demo_defs subdir_env_def subdir_ffmpeg_def vandal_env_def
      vandal_ffmpeg_def Let_def)

text \<open>
  Claim C5. Once \<^verbatim>\<open>tempfile.mkdtemp\<close> has created the directory \<open>d\<close>, the one call of
  \<^verbatim>\<open>subprocess.Popen\<close> that \<^verbatim>\<open>_ffmpeg_decode\<close> makes has the argument vector
  \<^verbatim>\<open>ffmpeg\<close>, \<^verbatim>\<open>-i\<close>, the source, the configured extra arguments in their order, and
  \<^verbatim>\<open>os.path.join(d, '%010d.' + encoding_format)\<close>. The source is the path itself for a
  string and \<^verbatim>\<open>pipe:0\<close> for a stream; for a directory name that does not end in a slash
  the last argument is \<open>d\<close>, a slash, \<^verbatim>\<open>%010d.\<close> and the encoding format.
\<close>

theorem ffmpeg_decode_argument_vector:
  assumes "tempfile_mkdtemp env w = (Inr d, w1)"
  shows "popen_log (snd (ffmpeg_decode self env (PyStr p) w)) =
           popen_log w @
           [[''ffmpeg'', ''-i'', p] @ extra_ffmpeg_args self @
            [os_path_join d (''%010d.'' @ encoding_format self)]] \<and>
         popen_log (snd (ffmpeg_decode self env (PyObj None (Inr data)) w)) =
           popen_log w @
           [[''ffmpeg'', ''-i'', ''pipe:0''] @ extra_ffmpeg_args self @
            [os_path_join d (''%010d.'' @ encoding_format self)]] \<and>
         (d \<noteq> [] \<and> last d \<noteq> CHR ''/'' \<longrightarrow>
            os_path_join d (''%010d.'' @ encoding_format self) =
              d @ ''/%010d.'' @ encoding_format self)"
proof -
  have path: "decode_source (PyStr p :: 'a py_value) = Inr ([''ffmpeg'', ''-i'', p], None)"
    by (simp add: decode_source_def ffmpeg_path_def)
  have stream: "decode_source (PyObj None (Inr data) :: 'a py_value) =
      Inr ([''ffmpeg'', ''-i'', ''pipe:0''], Some data)"
    by (simp add: decode_source_def ffmpeg_path_def)
  show ?thesis
    using popen_log_ffmpeg_decode [OF path assms, of self]
      popen_log_ffmpeg_decode [OF stream assms, of self]
    by (simp add: output_pattern_def os_path_join_def)
qed

text \<open>An instance, for a path and for a stream.\<close>

theorem ffmpeg_decode_argument_vector_witness:
  "tempfile_mkdtemp demo_env demo_world =
     (Inr ''/tmp/tmpxxx'', demo_world\<lparr>filesys := filesys demo_world @ [(''/tmp/tmpxxx'', Dir)]\<rparr>) \<and>
   popen_log (snd (ffmpeg_decode demo_video demo_env (PyStr ''/videos/a.mkv'') demo_world)) =
     [[''ffmpeg'', ''-i'', ''/videos/a.mkv'', ''-an'', ''/tmp/tmpxxx/%010d.png'']] \<and>
   popen_log (snd (ffmpeg_decode demo_video demo_env (PyObj None (Inr ''AB'')) demo_world)) =
     [[''ffmpeg'', ''-i'', ''pipe:0'', ''-an'', ''/tmp/tmpxxx/%010d.png'']]"
proof -
  have h: "tempfile_mkdtemp demo_env demo_world =
     (Inr ''/tmp/tmpxxx'', demo_world\<lparr>filesys := filesys demo_world @ [(''/tmp/tmpxxx'', Dir)]\<rparr>)"
    by (simp add: tempfile_mkdtemp_def demo_defs Let_def)
  from ffmpeg_decode_argument_vector [OF h, of demo_video "''/videos/a.mkv''" "''AB''"] h
  show ?thesis
    by (simp add: demo_world_def demo_video_def)
qed

text \<open>
  Claim C6. Whatever the outcome of \<^verbatim>\<open>_ffmpeg_decode\<close> on a path or a stream (frames, a
  decoder failure, or any other exception raised inside the \<^verbatim>\<open>try\<close>), the directory \<open>d\<close>
  that \<^verbatim>\<open>tempfile.mkdtemp\<close> created is no directory afterwards. Unless the call ends in
  \<open>OSError\<close> (which is what a failing \<^verbatim>\<open>shutil.rmtree\<close> raises), no entry at or below
  \<open>d\<close> is left either.
\<close>

theorem ffmpeg_decode_removes_tempdir:
  assumes "decode_source v = Inr (first_args, sin)"
    and "tempfile_mkdtemp env w = (Inr d, w1)"
  shows "map_of (filesys (snd (ffmpeg_decode self env v w))) d \<noteq> Some Dir \<and>
         (fst (ffmpeg_decode self env v w) \<noteq> Inl OSError \<longrightarrow>
            (\<forall>(q, n) \<in> set (filesys (snd (ffmpeg_decode self env v w))). \<not> under d q))"
proof -
  let ?body = "decode_try_body env
      (first_args @ extra_ffmpeg_args self @ [output_pattern self d]) sin d w1"
  have unfold: "ffmpeg_decode self env v w = try_finally ?body (shutil_rmtree d)"
    by (rule ffmpeg_decode_unfold [OF assms])
  have gone: "map_of (filesys (snd (ffmpeg_decode self env v w))) d \<noteq> Some Dir"
    by (simp add: unfold snd_try_finally rmtree_not_dir)
  have rec: "\<forall>(q, n) \<in> set (filesys (snd (ffmpeg_decode self env v w))). \<not> under d q"
    if "fst (ffmpeg_decode self env v w) \<noteq> Inl OSError"
  proof (cases "map_of (filesys (snd ?body)) d = Some Dir")
    case True
    then show ?thesis
      by (auto simp add: unfold snd_try_finally rmtree_ok)
  next
    case False
    then have "fst (ffmpeg_decode self env v w) = Inl OSError"
      by (simp add: unfold fst_try_finally rmtree_fails)
    with that show ?thesis by simp
  qed
  from gone rec show ?thesis by blast
qed

text \<open>An instance on the path of a decoder failure.\<close>

theorem ffmpeg_decode_removes_tempdir_witness:
  "decode_source (PyStr ''/videos/missing.mkv'' :: nat list py_value) =
     Inr ([''ffmpeg'', ''-i'', ''/videos/missing.mkv''], None) \<and>
   tempfile_mkdtemp demo_env demo_world =
     (Inr ''/tmp/tmpxxx'', demo_world\<lparr>filesys := filesys demo_world @ [(''/tmp/tmpxxx'', Dir)]\<rparr>) \<and>
   map_of (filesys (snd (ffmpeg_decode demo_video demo_env (PyStr ''/videos/missing.mkv'')
                           demo_world))) ''/tmp/tmpxxx'' \<noteq> Some Dir \<and>
   fst (ffmpeg_decode demo_video demo_env (PyStr ''/videos/missing.mkv'') demo_world) \<noteq>
     Inl OSError \<and>
   filter (\<lambda>(q, n). under ''/tmp/tmpxxx'' q)
     (filesys (snd (ffmpeg_decode demo_video demo_env (PyStr ''/videos/missing.mkv'')
                      demo_world))) = []"
proof -
  have h1: "decode_source (PyStr ''/videos/missing.mkv'' :: nat list py_value) =
     Inr ([''ffmpeg'', ''-i'', ''/videos/missing.mkv''], None)"
    by (simp add: decode_source_def ffmpeg_path_def)
  have h2: "tempfile_mkdtemp demo_env demo_world =
     (Inr ''/tmp/tmpxxx'', demo_world\<lparr>filesys := filesys demo_world @ [(''/tmp/tmpxxx'', Dir)]\<rparr>)"
    by (simp add: tempfile_mkdtemp_def demo_defs Let_def)
  have h3: "fst (ffmpeg_decode demo_video demo_env (PyStr ''/videos/missing.mkv'') demo_world) \<noteq>
     Inl OSError"
    by (simp add: os_defs demo_defs Let_def)
  from ffmpeg_decode_removes_tempdir [OF h1 h2, of demo_video] h1 h2 h3 show ?thesis
    by (auto simp add: filter_empty_conv)
qed

text \<open>
  Claim C7. Let the decoder exit with status zero and \<^verbatim>\<open>_ffmpeg_decode\<close> return
  \<open>frames\<close>. Then the names \<^verbatim>\<open>os.listdir\<close> gives for the output directory, put in
  ascending order (the order of strings is the lexicographic one on character codes),
  name regular files whose contents are, one by one, the frames returned. And a decoder
  that leaves the same entries, each path once, enumerated in any other order, makes the
  call return the same frames.
\<close>

theorem ffmpeg_decode_frames_sorted:
  assumes "decode_source v = Inr (first_args, sin)"
    and "tempfile_mkdtemp env w = (Inr d, w1)"
    and "run_process env (first_args @ extra_ffmpeg_args self @ [output_pattern self d]) sin
           (filesys w1) = Exited 0 out err f2"
    and "fst (ffmpeg_decode self env v w) = Inr frames"
    and "shuffled (first_args @ extra_ffmpeg_args self @ [output_pattern self d]) sin
           (filesys w1) = Exited 0 out' err' f2'"
    and "mset f2' = mset f2"
    and "distinct (map fst f2)"
  shows "(\<exists>names. os_listdir d f2 = Inr names \<and>
            sorted (sort names) \<and> mset (sort names) = mset names \<and>
            map (\<lambda>n. map_of f2 (os_path_join d n)) (sort names) =
              map (\<lambda>b. Some (File b)) frames) \<and>
         fst (ffmpeg_decode self (env\<lparr>run_process := shuffled\<rparr>) v w) = Inr frames"
proof -
  have res: "(if map_of f2 d = Some Dir then collect_frames d f2 else Inl OSError) = Inr frames"
    using fst_ffmpeg_decode_zero [OF assms(1,2,3)] assms(4) by simp
  then have dir: "map_of f2 d = Some Dir"
    by (simp split: if_splits)
  with res have frames: "collect_frames d f2 = Inr frames"
    by simp
  from collect_frames_nodes [OF frames] have first: "\<exists>names. os_listdir d f2 = Inr names \<and>
      sorted (sort names) \<and> mset (sort names) = mset names \<and>
      map (\<lambda>n. map_of f2 (os_path_join d n)) (sort names) = map (\<lambda>b. Some (File b)) frames"
    by auto
  have tmp': "tempfile_mkdtemp (env\<lparr>run_process := shuffled\<rparr>) w = (Inr d, w1)"
    using assms(2) by (simp add: mkdtemp_run_process_update)
  have run': "run_process (env\<lparr>run_process := shuffled\<rparr>)
      (first_args @ extra_ffmpeg_args self @ [output_pattern self d]) sin (filesys w1) =
      Exited 0 out' err' f2'"
    using assms(5) by simp
  have "map_of f2' = map_of f2"
    using assms(6,7) by (rule map_of_permuted)
  with dir have dir': "map_of f2' d = Some Dir"
    by simp
  have "collect_frames d f2' = collect_frames d f2"
    using assms(6,7) by (rule collect_frames_permuted)
  with frames dir' have second:
    "fst (ffmpeg_decode self (env\<lparr>run_process := shuffled\<rparr>) v w) = Inr frames"
    by (simp add: fst_ffmpeg_decode_zero [OF assms(1) tmp' run'])
  from first second show ?thesis ..
qed

text \<open>An instance: the sample decoder, and the same with the enumeration reversed.\<close>

theorem ffmpeg_decode_frames_sorted_witness:
  "decode_source (PyStr ''/videos/a.mkv'' :: nat list py_value) =
     Inr ([''ffmpeg'', ''-i'', ''/videos/a.mkv''], None) \<and>
   tempfile_mkdtemp demo_env demo_world =
     (Inr ''/tmp/tmpxxx'', demo_world\<lparr>filesys := filesys demo_world @ [(''/tmp/tmpxxx'', Dir)]\<rparr>) \<and>
   run_process demo_env
     ([''ffmpeg'', ''-i'', ''/videos/a.mkv''] @ extra_ffmpeg_args demo_video @
      [output_pattern demo_video ''/tmp/tmpxxx''])
     None (filesys (demo_world\<lparr>filesys := filesys demo_world @ [(''/tmp/tmpxxx'', Dir)]\<rparr>)) =
     Exited 0 [] [] demo_decoded \<and>
   fst (ffmpeg_decode demo_video demo_env (PyStr ''/videos/a.mkv'') demo_world) =
     Inr [''AB'', ''BA''] \<and>
   shuffled_ffmpeg
     ([''ffmpeg'', ''-i'', ''/videos/a.mkv''] @ extra_ffmpeg_args demo_video @
      [output_pattern demo_video ''/tmp/tmpxxx''])
     None (filesys (demo_world\<lparr>filesys := filesys demo_world @ [(''/tmp/tmpxxx'', Dir)]\<rparr>)) =
     Exited 0 [] [] (rev demo_decoded) \<and>
   mset (rev demo_decoded) = mset demo_decoded \<and>
   distinct (map fst demo_decoded) \<and>
   os_listdir ''/tmp/tmpxxx'' demo_decoded = Inr [''0000000002.png'', ''0000000001.png''] \<and>
   (\<exists>names. os_listdir ''/tmp/tmpxxx'' demo_decoded = Inr names \<and>
      sorted (sort names) \<and> mset (sort names) = mset names \<and>
      map (\<lambda>n. map_of demo_decoded (os_path_join ''/tmp/tmpxxx'' n)) (sort names) =
        map (\<lambda>b. Some (File b)) [''AB'', ''BA'']) \<and>
   fst (ffmpeg_decode demo_video (demo_env\<lparr>run_process := shuffled_ffmpeg\<rparr>)
          (PyStr ''/videos/a.mkv'') demo_world) = Inr [''AB'', ''BA'']"
proof -
  have h5: "shuffled_ffmpeg
     ([''ffmpeg'', ''-i'', ''/videos/a.mkv''] @ extra_ffmpeg_args demo_video @
      [output_pattern demo_video ''/tmp/tmpxxx''])
     None (filesys (demo_world\<lparr>filesys := filesys demo_world @ [(''/tmp/tmpxxx'', Dir)]\<rparr>)) =
     Exited 0 [] [] (rev demo_decoded)"
    using demo_run_present by (simp add: shuffled_ffmpeg_def demo_env_def)
  have h6: "mset (rev demo_decoded) = mset demo_decoded"
    by simp
  have h7: "distinct (map fst demo_decoded)"
    by (simp add: demo_decoded_def demo_world_def)
  have listing: "os_listdir ''/tmp/tmpxxx'' demo_decoded =
      Inr [''0000000002.png'', ''0000000001.png'']"
    by (simp add: demo_decoded_def demo_world_def os_listdir_def child_name_def
        List.map_filter_def)
  from ffmpeg_decode_frames_sorted
    [where shuffled = shuffled_ffmpeg,
      OF decode_source_path demo_mkdtemp demo_run_present demo_decode_present h5 h6 h7]
    decode_source_path [of "''/videos/a.mkv''", where ?'a = "nat list"]
    demo_mkdtemp demo_run_present demo_decode_present h5 h6 h7 listing
  show ?thesis by simp
qed

text \<open>
  Claim C8. Given an in-memory frame array, \<^verbatim>\<open>encode_example\<close> hands exactly that
  array to the encoder of the base class; the world is the one it started in, so no
  process was started and no temporary file or directory was created.
\<close>

theorem encode_example_ndarray_passthrough:
  "encode_example self env (NdArray a) w = (sequence_encode_example env (RawArray a), w)"
  by (simp add: encode_example_def encoded_video_of_def)

text \<open>
  Claim C9, as the code has it. Let the copy succeed, let the decoder exit with status
  zero both on the original path and on the local copy, leaving output directories whose
  frames, read in sorted order, are the same, and let the local copy still be a file,
  outside the output directory, when the decoder is done. Then \<^verbatim>\<open>encode_example\<close>
  returns the same result with \<^verbatim>\<open>copy_locally\<close> set and unset: the encoding of those
  frames.
\<close>

theorem copy_locally_transparent:
  assumes "tempfile_mktemp env w = (Inr t, w0)"
    and "gfile_Copy env p t (filesys w) = (None, fc)"
    and "tempfile_mkdtemp env w = (Inr dA, wA)"
    and "run_process env ([''ffmpeg'', ''-i'', p] @ extra_ffmpeg_args self @
           [output_pattern self dA]) None (filesys wA) = Exited 0 outA errA fA"
    and "collect_frames dA fA = Inr frames"
    and "tempfile_mkdtemp env (w\<lparr>filesys := fc\<rparr>) = (Inr dB, wB)"
    and "run_process env ([''ffmpeg'', ''-i'', t] @ extra_ffmpeg_args self @
           [output_pattern self dB]) None (filesys wB) = Exited 0 outB errB fB"
    and "collect_frames dB fB = Inr frames"
    and "map_of fB t = Some (File b)"
    and "\<not> under dB t"
  shows "fst (encode_example (self\<lparr>copy_locally := True\<rparr>) env (PyStr p) w) =
           fst (encode_example (self\<lparr>copy_locally := False\<rparr>) env (PyStr p) w) \<and>
         fst (encode_example (self\<lparr>copy_locally := False\<rparr>) env (PyStr p) w) =
           sequence_encode_example env (FrameFiles frames)"
proof -
  have dirA: "map_of fA dA = Some Dir"
    using assms(5) by (rule collect_Inr_dir)
  have dirB: "map_of fB dB = Some Dir"
    using assms(8) by (rule collect_Inr_dir)
  have direct: "fst (ffmpeg_decode self env (PyStr p) w) = Inr frames"
    using fst_ffmpeg_decode_Exited [OF decode_source_path assms(3,4) dirA] assms(5) by simp
  have plain: "fst (encode_example (self\<lparr>copy_locally := False\<rparr>) env (PyStr p) w) =
      sequence_encode_example env (FrameFiles frames)"
    using direct by (simp add: encode_example_direct ffmpeg_decode_copy_update)
  have w0: "w0 = w"
    using assms(1) by (simp add: mktemp_Inr)
  have body: "copy_then_decode (self\<lparr>copy_locally := True\<rparr>) env p t w =
      ffmpeg_decode self env (PyStr t) (w\<lparr>filesys := fc\<rparr>)"
    using assms(2) by (simp add: copy_then_decode_def ffmpeg_decode_copy_update)
  have local: "fst (ffmpeg_decode self env (PyStr t) (w\<lparr>filesys := fc\<rparr>)) = Inr frames"
    using fst_ffmpeg_decode_Exited [OF decode_source_path assms(6,7) dirB] assms(8) by simp
  have left: "filesys (snd (ffmpeg_decode self env (PyStr t) (w\<lparr>filesys := fc\<rparr>))) =
      filter (\<lambda>(q, n). \<not> under dB q) fB"
    by (rule filesys_ffmpeg_decode_Exited [OF decode_source_path assms(6,7) dirB])
  have "map_of (filter (\<lambda>(q, n). \<not> under dB q) fB) t = Some (File b)"
    using assms(9,10) by (simp add: map_of_filter_in)
  then have unlink: "fst (os_unlink t (snd (ffmpeg_decode self env (PyStr t)
      (w\<lparr>filesys := fc\<rparr>)))) = Inr ()"
    by (simp add: os_unlink_def left)
  have h: "copy_locally (self\<lparr>copy_locally := True\<rparr>)"
    by simp
  have "fst (encode_example (self\<lparr>copy_locally := True\<rparr>) env (PyStr p) w) =
      sequence_encode_example env (FrameFiles frames)"
    using unlink local
    by (simp add: fst_encode_example_local_copy [OF h assms(1)] w0 body fst_try_finally)
  with plain show ?thesis by simp
qed

text \<open>An instance in the sample environment.\<close>

theorem copy_locally_transparent_witness:
  "tempfile_mktemp demo_env demo_world = (Inr ''/tmp/tmpxxx'', demo_world) \<and>
   gfile_Copy demo_env ''/videos/a.mkv'' ''/tmp/tmpxxx'' (filesys demo_world) =
     (None, demo_copied) \<and>
   tempfile_mkdtemp demo_env demo_world =
     (Inr ''/tmp/tmpxxx'', demo_world\<lparr>filesys := filesys demo_world @ [(''/tmp/tmpxxx'', Dir)]\<rparr>) \<and>
   run_process demo_env
     ([''ffmpeg'', ''-i'', ''/videos/a.mkv''] @ extra_ffmpeg_args demo_video @
      [output_pattern demo_video ''/tmp/tmpxxx''])
     None (filesys (demo_world\<lparr>filesys := filesys demo_world @ [(''/tmp/tmpxxx'', Dir)]\<rparr>)) =
     Exited 0 [] [] demo_decoded \<and>
   collect_frames ''/tmp/tmpxxx'' demo_decoded = Inr [''AB'', ''BA''] \<and>
   tempfile_mkdtemp demo_env (demo_world\<lparr>filesys := demo_copied\<rparr>) =
     (Inr ''/tmp/tmpxxxx'', demo_world\<lparr>filesys := demo_copied @ [(''/tmp/tmpxxxx'', Dir)]\<rparr>) \<and>
   run_process demo_env
     ([''ffmpeg'', ''-i'', ''/tmp/tmpxxx''] @ extra_ffmpeg_args demo_video @
      [output_pattern demo_video ''/tmp/tmpxxxx''])
     None (filesys (demo_world\<lparr>filesys := demo_copied @ [(''/tmp/tmpxxxx'', Dir)]\<rparr>)) =
     Exited 0 [] [] demo_decoded_copy \<and>
   collect_frames ''/tmp/tmpxxxx'' demo_decoded_copy = Inr [''AB'', ''BA''] \<and>
   map_of demo_decoded_copy ''/tmp/tmpxxx'' = Some (File ''AB'') \<and>
   \<not> under ''/tmp/tmpxxxx'' ''/tmp/tmpxxx'' \<and>
   fst (encode_example (demo_video\<lparr>copy_locally := True\<rparr>) demo_env (PyStr ''/videos/a.mkv'')
          demo_world) =
     fst (encode_example (demo_video\<lparr>copy_locally := False\<rparr>) demo_env (PyStr ''/videos/a.mkv'')
            demo_world) \<and>
   fst (encode_example (demo_video\<lparr>copy_locally := False\<rparr>) demo_env (PyStr ''/videos/a.mkv'')
          demo_world) = sequence_encode_example demo_env (FrameFiles [''AB'', ''BA''])"
proof -
  have h9: "map_of demo_decoded_copy ''/tmp/tmpxxx'' = Some (File ''AB'')"
    by (simp add: demo_decoded_copy_def demo_copied_def demo_world_def)
  have h10: "\<not> under ''/tmp/tmpxxxx'' ''/tmp/tmpxxx''"
    by (simp add: under_def)
  from copy_locally_transparent
    [OF demo_mktemp demo_copy demo_mkdtemp demo_run_present demo_collect_present
        demo_mkdtemp_copy demo_run_copy demo_collect_copy h9 h10]
    demo_mktemp demo_copy demo_mkdtemp demo_run_present demo_collect_present
    demo_mkdtemp_copy demo_run_copy demo_collect_copy h9 h10
  show ?thesis by simp
qed

text \<open>
  Claim C9, as stated, holds for every path. For a path that does not exist the two
  settings raise different exceptions: \<open>OSError\<close> from \<^verbatim>\<open>os.unlink\<close> with the copy, the
  decode error without. And a decoder that recognises its input by the file name suffix
  decodes \<^verbatim>\<open>/videos/a.mkv\<close> but not its copy, whose name \<^verbatim>\<open>tempfile.mktemp\<close> chose.
\<close>

theorem copy_locally_transparent_counterexample:
  "fst (encode_example (demo_video\<lparr>copy_locally := True\<rparr>) demo_env
          (PyStr ''/videos/missing.mkv'') demo_world) = Inl OSError \<and>
   (\<exists>msg. fst (encode_example (demo_video\<lparr>copy_locally := False\<rparr>) demo_env
                 (PyStr ''/videos/missing.mkv'') demo_world) = Inl (ValueError msg)) \<and>
   (\<exists>msg. fst (encode_example (demo_video\<lparr>copy_locally := True\<rparr>) picky_env
                 (PyStr ''/videos/a.mkv'') demo_world) = Inl (ValueError msg)) \<and>
   fst (encode_example (demo_video\<lparr>copy_locally := False\<rparr>) picky_env
          (PyStr ''/videos/a.mkv'') demo_world) = Inr (FrameFiles [''AB'', ''BA''])"
proof -
  have a: "fst (encode_example (demo_video\<lparr>copy_locally := True\<rparr>) demo_env
      (PyStr ''/videos/missing.mkv'') demo_world) = Inl OSError"
    by (simp add: os_defs demo_defs Let_def)
  have b: "\<exists>msg. fst (encode_example (demo_video\<lparr>copy_locally := False\<rparr>) demo_env
      (PyStr ''/videos/missing.mkv'') demo_world) = Inl (ValueError msg)"
    by (simp add: os_defs demo_defs Let_def)
  have c: "\<exists>msg. fst (encode_example (demo_video\<lparr>copy_locally := True\<rparr>) picky_env
      (PyStr ''/videos/a.mkv'') demo_world) = Inl (ValueError msg)"
    by (simp add: os_defs demo_defs picky_env_def picky_ffmpeg_def suffix_def Let_def)
  have d: "fst (encode_example (demo_video\<lparr>copy_locally := False\<rparr>) picky_env
      (PyStr ''/videos/a.mkv'') demo_world) = Inr (FrameFiles [''AB'', ''BA''])"
    by (simp add: os_defs demo_defs picky_env_def picky_ffmpeg_def suffix_def Let_def)
  from a b c d show ?thesis by blast
qed



end
